theory Spec2Isabelle
  imports Complex_Main "HOL-Library.AList"
begin

section \<open>Python, pandas and numpy values\<close>

text \<open>
  The exceptions the modelled code can raise. A function that can raise returns
  \<open>py_error + 'a\<close>, with \<open>Inl\<close> for the exception.
\<close>

datatype py_error = KeyError | IndexError | ValueError | ZeroDivisionError

text \<open>
  A Python \<open>dict\<close> is an association list in insertion order with one entry per key:
  \<open>d[k] = v\<close> is \<open>AList.update k v d\<close> (overwrite in place, or append a new key),
  \<open>d.get(k)\<close> is \<open>map_of d k\<close>, and \<open>d.items()\<close> is the list itself.

  A \<open>float\<close> is a \<open>real\<close>: rounding error, overflow and infinities are not modelled.
  A float that the code itself can make NaN (a rolling mean before its warm-up, a shifted
  column, a replaced zero) is a \<open>real option\<close> with \<open>None\<close> for NaN; comparisons with
  NaN are false and arithmetic on NaN is NaN. The columns of an input frame hold no NaN.
\<close>

definition f_lt :: "real option \<Rightarrow> real option \<Rightarrow> bool" where
  "f_lt a b = (case a of None \<Rightarrow> False | Some x \<Rightarrow> (case b of None \<Rightarrow> False | Some y \<Rightarrow> x < y))"

definition f_sub :: "real option \<Rightarrow> real option \<Rightarrow> real option" where
  "f_sub a b = (case a of None \<Rightarrow> None | Some x \<Rightarrow> (case b of None \<Rightarrow> None | Some y \<Rightarrow> Some (x - y)))"

definition f_abs :: "real option \<Rightarrow> real option" where
  "f_abs a = map_option abs a"

fun non_nan :: "real option list \<Rightarrow> real list" where
  "non_nan [] = []"
| "non_nan (None # xs) = non_nan xs"
| "non_nan (Some x # xs) = x # non_nan xs"

text \<open>\<open>xs.iloc[i]\<close> and \<open>xs[i]\<close>: a negative index counts from the end.\<close>

definition iloc :: "'a list \<Rightarrow> int \<Rightarrow> py_error + 'a" where
  "iloc xs i =
     (if 0 \<le> i \<and> i < int (length xs) then Inr (xs ! nat i)
      else if i < 0 \<and> - int (length xs) \<le> i then Inr (xs ! nat (int (length xs) + i))
      else Inl IndexError)"

text \<open>Slices \<open>xs[start:stop]\<close> and \<open>xs[start:]\<close>: bounds are clamped, never raised.\<close>

definition slice_index :: "nat \<Rightarrow> int \<Rightarrow> nat" where
  "slice_index n i = (if i < 0 then nat (max 0 (int n + i)) else min (nat i) n)"

definition py_slice :: "'a list \<Rightarrow> int \<Rightarrow> int \<Rightarrow> 'a list" where
  "py_slice xs start stop =
     drop (slice_index (length xs) start) (take (slice_index (length xs) stop) xs)"

definition py_slice_from :: "'a list \<Rightarrow> int \<Rightarrow> 'a list" where
  "py_slice_from xs start = drop (slice_index (length xs) start) xs"

text \<open>\<open>Series.min()\<close> and \<open>Series.max()\<close>: NaN for an empty series.\<close>

fun series_min :: "real list \<Rightarrow> real option" where
  "series_min [] = None"
| "series_min (x # xs) = Some (fold min xs x)"

fun series_max :: "real list \<Rightarrow> real option" where
  "series_max [] = None"
| "series_max (x # xs) = Some (fold max xs x)"

text \<open>\<open>Series.shift(1)\<close>: NaN enters at the front and the last value drops out.\<close>

definition shift1 :: "real option list \<Rightarrow> real option list" where
  "shift1 xs = (if xs = [] then [] else None # butlast xs)"

text \<open>\<open>Series.cumsum()\<close>\<close>

fun cumsum_from :: "real \<Rightarrow> real list \<Rightarrow> real list" where
  "cumsum_from acc [] = []"
| "cumsum_from acc (x # xs) = (acc + x) # cumsum_from (acc + x) xs"

definition cumsum :: "real list \<Rightarrow> real list" where
  "cumsum xs = cumsum_from 0 xs"

text \<open>
  \<open>Series.rolling(window, min_periods)\<close>: the window at position \<open>i\<close> holds the
  positions \<open>i - window + 1 .. i\<close> that exist; the aggregate is NaN unless at least
  \<open>min_periods\<close> of its values are not NaN. pandas refuses \<open>min_periods > window\<close>
  with \<open>ValueError\<close>. Window sizes are natural numbers throughout the model.
\<close>

definition window_at :: "'a list \<Rightarrow> nat \<Rightarrow> nat \<Rightarrow> 'a list" where
  "window_at xs w i = drop (Suc i - w) (take (Suc i) xs)"

definition window_mean :: "nat \<Rightarrow> real option list \<Rightarrow> real option" where
  "window_mean min_periods ws =
     (let vs = non_nan ws
      in if min_periods \<le> length vs \<and> vs \<noteq> [] then Some (sum_list vs / real (length vs))
         else None)"

definition window_sum :: "nat \<Rightarrow> real option list \<Rightarrow> real option" where
  "window_sum min_periods ws =
     (let vs = non_nan ws
      in if min_periods \<le> length vs then Some (sum_list vs) else None)"

definition rolling_mean :: "nat \<Rightarrow> nat \<Rightarrow> real option list \<Rightarrow> py_error + real option list" where
  "rolling_mean window min_periods xs =
     (if window < min_periods then Inl ValueError
      else Inr (map (\<lambda>i. window_mean min_periods (window_at xs window i)) [0..<length xs]))"

definition rolling_sum :: "nat \<Rightarrow> nat \<Rightarrow> real option list \<Rightarrow> py_error + real option list" where
  "rolling_sum window min_periods xs =
     (if window < min_periods then Inl ValueError
      else Inr (map (\<lambda>i. window_sum min_periods (window_at xs window i)) [0..<length xs]))"

text \<open>
  \<open>np.linspace(start, stop, num)\<close>, \<open>np.digitize(x, bins)\<close> for increasing bins (the
  number of bins not above \<open>x\<close>), \<open>np.clip\<close>, \<open>np.add.at\<close> on indices that are in range,
  \<open>np.percentile\<close> with linear interpolation (it refuses a percentile outside
  \<open>[0, 100]\<close>; no caller passes it an empty array), and \<open>np.argmin\<close> (the first
  position of the minimum).
\<close>

definition linspace :: "real \<Rightarrow> real \<Rightarrow> nat \<Rightarrow> real list" where
  "linspace start stop num =
     (if num = 1 then [start]
      else map (\<lambda>i. start + real i * ((stop - start) / real (num - 1))) [0..<num])"

definition digitize :: "real \<Rightarrow> real list \<Rightarrow> int" where
  "digitize x bins = int (length (filter (\<lambda>e. e \<le> x) bins))"

definition clip :: "int \<Rightarrow> int \<Rightarrow> int \<Rightarrow> int" where
  "clip v lo hi = min (max v lo) hi"

definition add_at :: "real list \<Rightarrow> nat list \<Rightarrow> real list \<Rightarrow> real list" where
  "add_at acc indices vals = fold (\<lambda>(i, v) a. a[i := a ! i + v]) (zip indices vals) acc"

definition percentile :: "real list \<Rightarrow> real \<Rightarrow> py_error + real" where
  "percentile a q =
     (if q < 0 \<or> 100 < q then Inl ValueError
      else if a = [] then Inl IndexError
      else (let s = sort a; pos = q / 100 * real (length a - 1);
                lo = nat \<lfloor>pos\<rfloor>; hi = min (lo + 1) (length a - 1)
            in Inr (s ! lo + (s ! hi - s ! lo) * (pos - real lo))))"

definition argmin :: "real list \<Rightarrow> nat" where
  "argmin xs = (case series_min xs of None \<Rightarrow> 0 | Some m \<Rightarrow> length (takeWhile (\<lambda>x. x \<noteq> m) xs))"

text \<open>
  The builtin \<open>round(x, ndigits)\<close> on a float: the nearest multiple of
  \<open>10 ^ (- ndigits)\<close>, a tie going to the even multiple.
\<close>

definition round_half_even :: "real \<Rightarrow> int" where
  "round_half_even x =
     (let f = \<lfloor>x\<rfloor>; d = x - of_int f
      in if d < 1 / 2 then f else if 1 / 2 < d then f + 1 else if even f then f else f + 1)"

definition py_round :: "real \<Rightarrow> nat \<Rightarrow> real" where
  "py_round x ndigits = of_int (round_half_even (x * 10 ^ ndigits)) / 10 ^ ndigits"

section \<open>config.py\<close>

text \<open>
  The tunables the four modules import. Sizes are natural numbers; the defaults are the
  fallback values of \<open>config.py\<close>.
\<close>

record config =
  MIN_RR_RATIO :: real
  WASH_TRADE_TAKER_RATIO_LOW :: real
  WASH_TRADE_TAKER_RATIO_HIGH :: real
  MIN_VOLUME_EFFICIENCY :: real
  ATR_MA_PERIOD :: nat
  ATR_PERIOD :: nat
  VP_BINS :: nat
  HVN_PERCENTILE :: real
  CVD_WINDOW :: nat
  OFI_WINDOW :: nat
  MOMENTUM_ROC_PERIOD :: nat
  OB_IMBALANCE_FACTOR :: real
  OB_PROXIMITY_PCT :: real
  ATR_SL_MULTIPLIER :: real
  SWING_LOOKBACK :: nat
  HVN_PROXIMITY_PCT :: real

definition default_config :: config where
  "default_config =
     \<lparr> MIN_RR_RATIO = 2,
       WASH_TRADE_TAKER_RATIO_LOW = 49 / 100,
       WASH_TRADE_TAKER_RATIO_HIGH = 51 / 100,
       MIN_VOLUME_EFFICIENCY = 2 / 10000,
       ATR_MA_PERIOD = 24,
       ATR_PERIOD = 14,
       VP_BINS = 30,
       HVN_PERCENTILE = 75,
       CVD_WINDOW = 20,
       OFI_WINDOW = 10,
       MOMENTUM_ROC_PERIOD = 5,
       OB_IMBALANCE_FACTOR = 12 / 10,
       OB_PROXIMITY_PCT = 5 / 1000,
       ATR_SL_MULTIPLIER = 15 / 10,
       SWING_LOOKBACK = 20,
       HVN_PROXIMITY_PCT = 5 / 1000 \<rparr>"

section \<open>The candle frame and the order book\<close>

text \<open>A row of the OHLCV \<open>DataFrame\<close>; a frame is the list of its rows in time order.\<close>

record candle =
  c_open :: real
  c_high :: real
  c_low :: real
  c_close :: real
  c_volume :: real
  c_taker_buy_volume :: real
  c_taker_sell_volume :: real

text \<open>
  The order-book dict: each of the keys \<open>"bids"\<close> and \<open>"asks"\<close> is absent (\<open>None\<close>)
  or holds a list of \<open>[price, size]\<close> levels.
\<close>

record orderbook =
  ob_bids :: "(real \<times> real) list option"
  ob_asks :: "(real \<times> real) list option"

definition empty_orderbook :: orderbook where
  "empty_orderbook = \<lparr> ob_bids = None, ob_asks = None \<rparr>"

section \<open>state_manager.py\<close>

datatype PairState = IDLE | LONG | SHORT

record VirtualPosition =
  pos_symbol :: string
  pos_direction :: string
  pos_entry :: real
  pos_tp :: real
  pos_sl :: real
  pos_rr :: real
  pos_score :: int

text \<open>
  The two dictionaries of a \<open>StateManager\<close>. A value of \<open>positions\<close> is
  \<open>Optional[VirtualPosition]\<close>: a key can be present with the value \<open>None\<close>.
\<close>

record StateManager =
  states :: "(string \<times> PairState) list"
  positions :: "(string \<times> VirtualPosition option) list"

text \<open>\<open>__init__\<close>: the two dict comprehensions over \<open>pairs\<close>.\<close>

definition init :: "string list \<Rightarrow> StateManager" where
  "init pairs =
     \<lparr> states = fold (\<lambda>p d. AList.update p IDLE d) pairs [],
       positions = fold (\<lambda>p d. AList.update p None d) pairs [] \<rparr>"

text \<open>\<open>self._states.get(symbol, PairState.IDLE)\<close>\<close>

definition get_state :: "StateManager \<Rightarrow> string \<Rightarrow> PairState" where
  "get_state sm symbol = (case map_of (states sm) symbol of None \<Rightarrow> IDLE | Some s \<Rightarrow> s)"

text \<open>\<open>self._states.get(symbol) == PairState.IDLE\<close>\<close>

definition is_idle :: "StateManager \<Rightarrow> string \<Rightarrow> bool" where
  "is_idle sm symbol = (map_of (states sm) symbol = Some IDLE)"

text \<open>\<open>self._positions.get(symbol)\<close>: \<open>None\<close> for a missing key and for a stored \<open>None\<close>.\<close>

definition get_position :: "StateManager \<Rightarrow> string \<Rightarrow> VirtualPosition option" where
  "get_position sm symbol = (case map_of (positions sm) symbol of None \<Rightarrow> None | Some p \<Rightarrow> p)"

text \<open>
  \<open>lock_pair\<close>. When the pair is not idle the arguments of \<open>logger.warning\<close> are
  evaluated before the \<open>return False\<close>, and one of them is the subscript
  \<open>self._states[symbol]\<close>, which raises \<open>KeyError\<close> for a symbol that has no entry.
  The result is the returned flag and the manager after the call.
\<close>

definition lock_pair ::
  "StateManager \<Rightarrow> string \<Rightarrow> string \<Rightarrow> real \<Rightarrow> real \<Rightarrow> real \<Rightarrow> real \<Rightarrow> int
     \<Rightarrow> py_error + (bool \<times> StateManager)" where
  "lock_pair sm symbol direction entry tp sl rr score =
     (if \<not> is_idle sm symbol then
        (case map_of (states sm) symbol of
           None \<Rightarrow> Inl KeyError
         | Some s \<Rightarrow> Inr (False, sm))
      else
        (let new_state = (if direction = ''LONG'' then LONG else SHORT) in
         Inr (True,
              sm\<lparr> states := AList.update symbol new_state (states sm),
                  positions := AList.update symbol
                    (Some \<lparr> pos_symbol = symbol, pos_direction = direction, pos_entry = entry,
                            pos_tp = tp, pos_sl = sl, pos_rr = rr, pos_score = score \<rparr>)
                    (positions sm) \<rparr>)))"

text \<open>
  \<open>unlock_pair\<close> writes both dictionaries and logs the symbol with the reason; the
  logged pair is returned beside the new manager.
\<close>

definition unlock_pair ::
  "StateManager \<Rightarrow> string \<Rightarrow> string \<Rightarrow> StateManager \<times> (string \<times> string)" where
  "unlock_pair sm symbol reason =
     (sm\<lparr> states := AList.update symbol IDLE (states sm),
          positions := AList.update symbol None (positions sm) \<rparr>,
      (symbol, reason))"

text \<open>
  One iteration of the loop of \<open>update_virtual_positions\<close> over an item
  \<open>(symbol, position)\<close> of the snapshot \<open>list(self._positions.items())\<close>. The
  accumulator is the manager and the unlock records logged so far.
\<close>

definition close_position ::
  "StateManager \<times> (string \<times> string) list \<Rightarrow> string \<Rightarrow> string
     \<Rightarrow> StateManager \<times> (string \<times> string) list" where
  "close_position acc symbol reason =
     (let r = unlock_pair (fst acc) symbol reason in (fst r, snd acc @ [snd r]))"

definition resolve_item ::
  "(string \<times> real) list \<Rightarrow> StateManager \<times> (string \<times> string) list
     \<Rightarrow> string \<times> VirtualPosition option \<Rightarrow> StateManager \<times> (string \<times> string) list" where
  "resolve_item current_prices acc item =
     (case snd item of
        None \<Rightarrow> acc
      | Some position \<Rightarrow>
         (case map_of current_prices (fst item) of
            None \<Rightarrow> acc
          | Some price \<Rightarrow>
             if pos_direction position = ''LONG'' then
               (if price \<ge> pos_tp position then close_position acc (fst item) ''TP_HIT''
                else if price \<le> pos_sl position then close_position acc (fst item) ''SL_HIT''
                else acc)
             else if pos_direction position = ''SHORT'' then
               (if price \<le> pos_tp position then close_position acc (fst item) ''TP_HIT''
                else if price \<ge> pos_sl position then close_position acc (fst item) ''SL_HIT''
                else acc)
             else acc))"

definition update_virtual_positions ::
  "StateManager \<Rightarrow> (string \<times> real) list \<Rightarrow> StateManager \<times> (string \<times> string) list" where
  "update_virtual_positions sm current_prices =
     foldl (resolve_item current_prices) (sm, []) (positions sm)"

subsection \<open>Observations and reachable managers\<close>

text \<open>The position record \<open>lock_pair\<close> stores.\<close>

definition new_position ::
  "string \<Rightarrow> string \<Rightarrow> real \<Rightarrow> real \<Rightarrow> real \<Rightarrow> real \<Rightarrow> int \<Rightarrow> VirtualPosition" where
  "new_position symbol direction entry tp sl rr score =
     \<lparr> pos_symbol = symbol, pos_direction = direction, pos_entry = entry,
       pos_tp = tp, pos_sl = sl, pos_rr = rr, pos_score = score \<rparr>"

text \<open>
  The managers a program can reach: construction, then any calls of the three mutators.
  A \<open>lock_pair\<close> that raises leaves the manager as it was.
\<close>

inductive reachable :: "StateManager \<Rightarrow> bool" where
  construct: "reachable (init pairs)"
| lock: "reachable sm \<Longrightarrow> lock_pair sm symbol direction entry tp sl rr score = Inr (ok, sm')
           \<Longrightarrow> reachable sm'"
| unlock: "reachable sm \<Longrightarrow> reachable (fst (unlock_pair sm symbol reason))"
| update: "reachable sm \<Longrightarrow> reachable (fst (update_virtual_positions sm current_prices))"

definition registry_inv :: "StateManager \<Rightarrow> bool" where
  "registry_inv sm =
     (\<forall>symbol. (get_position sm symbol \<noteq> None) = (get_state sm symbol \<noteq> IDLE))"

text \<open>
  The resolution rule in the words of the specification: take-profit is tested before
  stop-loss, a LONG position hits its take-profit at or above it and its stop-loss at or
  below it, a SHORT position the other way round, and without a price nothing is hit.
\<close>

definition expected_resolution :: "VirtualPosition \<Rightarrow> real option \<Rightarrow> string option" where
  "expected_resolution p price_opt =
     (case price_opt of
        None \<Rightarrow> None
      | Some price \<Rightarrow>
          if pos_direction p = ''LONG'' then
            (if price \<ge> pos_tp p then Some ''TP_HIT''
             else if price \<le> pos_sl p then Some ''SL_HIT'' else None)
          else if pos_direction p = ''SHORT'' then
            (if price \<le> pos_tp p then Some ''TP_HIT''
             else if price \<ge> pos_sl p then Some ''SL_HIT'' else None)
          else None)"

text \<open>
  What one call of \<open>update_virtual_positions\<close> did to a symbol: closed it (state
  \<open>IDLE\<close>, position \<open>None\<close>, one unlock logged with the reason), or left it alone.
\<close>

definition closed_with ::
  "StateManager \<Rightarrow> (string \<times> string) list \<Rightarrow> string \<Rightarrow> string \<Rightarrow> bool" where
  "closed_with sm' events symbol reason =
     (map_of (states sm') symbol = Some IDLE \<and> map_of (positions sm') symbol = Some None
      \<and> filter (\<lambda>e. fst e = symbol) events = [(symbol, reason)])"

definition untouched ::
  "StateManager \<Rightarrow> StateManager \<Rightarrow> (string \<times> string) list \<Rightarrow> string \<Rightarrow> bool" where
  "untouched sm sm' events symbol =
     (map_of (states sm') symbol = map_of (states sm) symbol
      \<and> map_of (positions sm') symbol = map_of (positions sm) symbol
      \<and> filter (\<lambda>e. fst e = symbol) events = [])"

text \<open>The entries of one symbol and the unlocks logged for it, used in the proofs.\<close>

definition view :: "string \<Rightarrow> StateManager \<times> (string \<times> string) list
    \<Rightarrow> PairState option \<times> VirtualPosition option option \<times> (string \<times> string) list" where
  "view symbol acc =
     (map_of (states (fst acc)) symbol, map_of (positions (fst acc)) symbol,
      filter (\<lambda>e. fst e = symbol) (snd acc))"

text \<open>The decision of one loop iteration as a function of the item and the prices.\<close>

definition hit :: "(string \<times> real) list \<Rightarrow> string \<times> VirtualPosition option \<Rightarrow> string option" where
  "hit prices item =
     (case snd item of None \<Rightarrow> None | Some p \<Rightarrow>
       (case map_of prices (fst item) of None \<Rightarrow> None | Some price \<Rightarrow>
          if pos_direction p = ''LONG'' then
            (if price \<ge> pos_tp p then Some ''TP_HIT''
             else if price \<le> pos_sl p then Some ''SL_HIT'' else None)
          else if pos_direction p = ''SHORT'' then
            (if price \<le> pos_tp p then Some ''TP_HIT''
             else if price \<ge> pos_sl p then Some ''SL_HIT'' else None)
          else None))"

text \<open>Scenario E: one pair locked LONG with take-profit 110 and stop-loss 95.\<close>

definition btc_long :: StateManager where
  "btc_long =
     \<lparr> states = [(''BTC/USDT:USDT'', LONG)],
       positions = [(''BTC/USDT:USDT'',
                     Some (new_position ''BTC/USDT:USDT'' ''LONG'' 100 110 95 2 4))] \<rparr>"

section \<open>logic_filters.py\<close>

text \<open>
  The true range both ATR functions compute: \<open>prev_close\<close> is the close column shifted
  by one row, and the row-wise \<open>max(axis=1)\<close> of the three columns skips NaN, so the
  first row keeps \<open>high - low\<close>.
\<close>

definition row_max :: "real option list \<Rightarrow> real option" where
  "row_max vs = series_max (non_nan vs)"

definition true_range :: "candle list \<Rightarrow> real option list" where
  "true_range df =
     (let prev_close = shift1 (map (\<lambda>cd. Some (c_close cd)) df)
      in map (\<lambda>(cd, pc). row_max [Some (c_high cd - c_low cd),
                                   f_abs (f_sub (Some (c_high cd)) pc),
                                   f_abs (f_sub (Some (c_low cd)) pc)])
             (zip df prev_close))"

definition compute_atr :: "candle list \<Rightarrow> nat \<Rightarrow> py_error + real option list" where
  "compute_atr df period = rolling_mean period period (true_range df)"

definition gate_anti_wash_trading :: "config \<Rightarrow> candle list \<Rightarrow> py_error + bool" where
  "gate_anti_wash_trading c df =
     (let min_required = ATR_MA_PERIOD c + ATR_PERIOD c + 2 in
      if df = [] \<or> length df < min_required then Inr False
      else
        (case iloc df (- 2) of Inl e \<Rightarrow> Inl e | Inr candle \<Rightarrow>
         (let total_volume = c_volume candle in
          if total_volume \<le> 0 then Inr False
          else
            (let price_displacement = \<bar>c_close candle - c_open candle\<bar>;
                 volume_efficiency = price_displacement / total_volume in
             if volume_efficiency < MIN_VOLUME_EFFICIENCY c then Inr False
             else
               (case compute_atr df (ATR_PERIOD c) of Inl e \<Rightarrow> Inl e | Inr atr_series \<Rightarrow>
               (case rolling_mean (ATR_MA_PERIOD c) (ATR_MA_PERIOD c) atr_series of
                  Inl e \<Rightarrow> Inl e | Inr atr_ma_series \<Rightarrow>
               (case iloc atr_series (- 2) of Inl e \<Rightarrow> Inl e | Inr latest_atr \<Rightarrow>
               (case iloc atr_ma_series (- 2) of Inl e \<Rightarrow> Inl e | Inr latest_atr_ma \<Rightarrow>
                  if latest_atr = None \<or> latest_atr_ma = None then Inr False
                  else if f_lt latest_atr latest_atr_ma then Inr False
                  else
                    (let taker_buy = c_taker_buy_volume candle;
                         taker_ratio = taker_buy / total_volume in
                     if WASH_TRADE_TAKER_RATIO_LOW c \<le> taker_ratio
                        \<and> taker_ratio \<le> WASH_TRADE_TAKER_RATIO_HIGH c
                     then Inr False
                     else Inr True)))))))))"

section \<open>scoring_engine.py\<close>

definition compute_ofi :: "candle list \<Rightarrow> real list" where
  "compute_ofi df = map (\<lambda>cd. c_taker_buy_volume cd - c_taker_sell_volume cd) df"

text \<open>
  \<open>_compute_vwap\<close>: \<open>cum_vol.replace(0, np.nan)\<close> turns a zero denominator into NaN, and
  the quotient is NaN there.
\<close>

definition compute_vwap :: "candle list \<Rightarrow> real option list" where
  "compute_vwap df =
     (let typical_price = map (\<lambda>cd. (c_high cd + c_low cd + c_close cd) / 3) df;
          cum_tp_vol = cumsum (map (\<lambda>(t, cd). t * c_volume cd) (zip typical_price df));
          cum_vol = cumsum (map c_volume df)
      in map (\<lambda>(a, b). if b = 0 then None else Some (a / b)) (zip cum_tp_vol cum_vol))"

text \<open>
  \<open>_build_volume_profile\<close>: the rows \<open>(price_mid, volume)\<close> of the histogram. With
  \<open>VP_BINS = 0\<close> the array of bins is empty and \<open>np.add.at\<close> raises \<open>IndexError\<close>.
  Both callers return before they pass an empty frame; the model gives such a frame
  the empty histogram.
\<close>

definition build_volume_profile :: "config \<Rightarrow> candle list \<Rightarrow> py_error + (real \<times> real) list" where
  "build_volume_profile c df =
     (case series_min (map c_low df) of None \<Rightarrow> Inr [] | Some price_min \<Rightarrow>
      (case series_max (map c_high df) of None \<Rightarrow> Inr [] | Some price_max \<Rightarrow>
       if price_max \<le> price_min then Inr []
       else if VP_BINS c = 0 then Inl IndexError
       else
         (let edges = linspace price_min price_max (VP_BINS c + 1);
              mids = map (\<lambda>(a, b). (a + b) / 2) (zip (butlast edges) (tl edges));
              indices = map (\<lambda>cd. nat (clip (digitize (c_close cd) edges - 1) 0
                                              (int (VP_BINS c) - 1))) df;
              vol_bins = add_at (replicate (VP_BINS c) 0) indices (map c_volume df)
          in Inr (zip mids vol_bins))))"

definition get_hvn_levels :: "config \<Rightarrow> candle list \<Rightarrow> py_error + real list" where
  "get_hvn_levels c df =
     (case build_volume_profile c df of Inl e \<Rightarrow> Inl e | Inr vp \<Rightarrow>
      if vp = [] then Inr []
      else
        (case percentile (map snd vp) (HVN_PERCENTILE c) of Inl e \<Rightarrow> Inl e | Inr threshold \<Rightarrow>
         Inr (sort (map fst (filter (\<lambda>row. snd row \<ge> threshold) vp)))))"

definition score_ofi :: "config \<Rightarrow> candle list \<Rightarrow> py_error + int" where
  "score_ofi c df =
     (let ofi = compute_ofi df in
      case rolling_mean (OFI_WINDOW c) 1 (map Some ofi) of Inl e \<Rightarrow> Inl e | Inr means \<Rightarrow>
      (case iloc means (- 1) of Inl e \<Rightarrow> Inl e | Inr rolling_ofi \<Rightarrow>
       if f_lt (Some 0) rolling_ofi then Inr 1
       else if f_lt rolling_ofi (Some 0) then Inr (- 1)
       else Inr 0))"

definition score_cvd_trend :: "config \<Rightarrow> candle list \<Rightarrow> py_error + int" where
  "score_cvd_trend c df =
     (let ofi = compute_ofi df in
      case rolling_sum (CVD_WINDOW c) 1 (map Some ofi) of Inl e \<Rightarrow> Inl e | Inr cvd \<Rightarrow>
      if length cvd < 2 then Inr 0
      else
        (let mid_offset = max 1 (int (CVD_WINDOW c) div 2);
             mid_idx = max 0 (int (length cvd) - mid_offset - 1) in
         case iloc cvd (- 1) of Inl e \<Rightarrow> Inl e | Inr cvd_last \<Rightarrow>
         (case iloc cvd mid_idx of Inl e \<Rightarrow> Inl e | Inr cvd_mid \<Rightarrow>
          (let slope = f_sub cvd_last cvd_mid in
           if f_lt (Some 0) slope then Inr 1
           else if f_lt slope (Some 0) then Inr (- 1)
           else Inr 0))))"

definition score_vwap :: "candle list \<Rightarrow> py_error + int" where
  "score_vwap df =
     (let vwap = compute_vwap df in
      case iloc (map c_close df) (- 1) of Inl e \<Rightarrow> Inl e | Inr current_close \<Rightarrow>
      (case iloc vwap (- 1) of Inl e \<Rightarrow> Inl e | Inr current_vwap \<Rightarrow>
       if current_vwap = None then Inr 0
       else if f_lt current_vwap (Some current_close) then Inr 1
       else if f_lt (Some current_close) current_vwap then Inr (- 1)
       else Inr 0))"

text \<open>
  The two blocks of \<open>_score_momentum_and_orderbook\<close>. The rate of change divides two
  Python floats, so a denominator \<open>close_ago + 1e-12\<close> of zero raises
  \<open>ZeroDivisionError\<close>.
\<close>

definition momentum_score :: "config \<Rightarrow> candle list \<Rightarrow> py_error + int" where
  "momentum_score c df =
     (if length df \<ge> MOMENTUM_ROC_PERIOD c + 1 then
        (case iloc (map c_close df) (- 1) of Inl e \<Rightarrow> Inl e | Inr close_now \<Rightarrow>
         (case iloc (map c_close df) (- (int (MOMENTUM_ROC_PERIOD c) + 1)) of
            Inl e \<Rightarrow> Inl e | Inr close_ago \<Rightarrow>
            if close_ago + 1 / 10 ^ 12 = 0 then Inl ZeroDivisionError
            else
              (let roc = (close_now - close_ago) / (close_ago + 1 / 10 ^ 12) in
               if roc > 0 then Inr 1 else if roc < 0 then Inr (- 1) else Inr 0)))
      else Inr 0)"

definition book_score :: "config \<Rightarrow> orderbook \<Rightarrow> int" where
  "book_score c ob =
     (let bids_raw = (case ob_bids ob of None \<Rightarrow> [] | Some b \<Rightarrow> b);
          asks_raw = (case ob_asks ob of None \<Rightarrow> [] | Some a \<Rightarrow> a) in
      if bids_raw \<noteq> [] \<and> asks_raw \<noteq> [] then
        (let mid = (fst (hd bids_raw) + fst (hd asks_raw)) / 2;
             lower = mid * (1 - OB_PROXIMITY_PCT c);
             upper = mid * (1 + OB_PROXIMITY_PCT c);
             bid_liq = sum_list (map snd (filter (\<lambda>l. fst l \<ge> lower) bids_raw));
             ask_liq = sum_list (map snd (filter (\<lambda>l. fst l \<le> upper) asks_raw)) in
         if bid_liq > ask_liq * OB_IMBALANCE_FACTOR c then 1
         else if ask_liq > bid_liq * OB_IMBALANCE_FACTOR c then - 1
         else 0)
      else 0)"

definition score_momentum_and_orderbook :: "config \<Rightarrow> candle list \<Rightarrow> orderbook \<Rightarrow> py_error + int" where
  "score_momentum_and_orderbook c df ob =
     (case momentum_score c df of Inl e \<Rightarrow> Inl e | Inr m \<Rightarrow>
      (let b = book_score c ob in
       if m = 1 \<and> b \<ge> 0 then Inr 1
       else if m = - 1 \<and> b \<le> 0 then Inr (- 1)
       else Inr 0))"

text \<open>
  \<open>_score_liquidity_zones\<close>. \<open>prior\<close> is the slice \<open>df.iloc[-21:-1]\<close>; its extremes are
  NaN only for an empty slice, and a comparison with NaN is false. The proximity
  divides two Python floats, so \<open>nearest_hvn + 1e-12 = 0\<close> raises \<open>ZeroDivisionError\<close>.
\<close>

definition score_liquidity_zones :: "config \<Rightarrow> candle list \<Rightarrow> py_error + int" where
  "score_liquidity_zones c df =
     (let min_rows = 22 in
      if length df < min_rows then Inr 0
      else
        (case iloc df (- 1) of Inl e \<Rightarrow> Inl e | Inr last_row \<Rightarrow>
         (let current_close = c_close last_row;
              lookback = 20;
              prior = py_slice df (- (lookback + 1)) (- 1);
              swing_high = series_max (map c_high prior);
              swing_low = series_min (map c_low prior) in
          if f_lt swing_high (Some (c_high last_row)) \<and> f_lt (Some current_close) swing_high
          then Inr (- 1)
          else if f_lt (Some (c_low last_row)) swing_low \<and> f_lt swing_low (Some current_close)
          then Inr 1
          else
            (case get_hvn_levels c df of Inl e \<Rightarrow> Inl e | Inr hvn_levels \<Rightarrow>
             if hvn_levels = [] then Inr 0
             else
               (let distances = map (\<lambda>l. \<bar>l - current_close\<bar>) hvn_levels;
                    nearest_hvn = hvn_levels ! argmin distances in
                if nearest_hvn + 1 / 10 ^ 12 = 0 then Inl ZeroDivisionError
                else
                  (let proximity = \<bar>current_close - nearest_hvn\<bar> / (nearest_hvn + 1 / 10 ^ 12) in
                   if proximity \<le> HVN_PROXIMITY_PCT c then
                     (if current_close \<ge> nearest_hvn then Inr 1 else Inr (- 1))
                   else Inr 0))))))"

text \<open>
  \<open>compute_score\<close>: the frame is \<open>None\<close> or a list of rows, the order book is \<open>None\<close> or
  a dict. The \<open>symbol\<close> argument only tags the log line and is left out.
\<close>

definition compute_score :: "config \<Rightarrow> candle list option \<Rightarrow> orderbook option \<Rightarrow> py_error + int" where
  "compute_score c df_opt orderbook_opt =
     (case df_opt of None \<Rightarrow> Inr 0 | Some df \<Rightarrow>
      if df = [] \<or> length df < 30 then Inr 0
      else
        (let ob = (case orderbook_opt of None \<Rightarrow> empty_orderbook | Some b \<Rightarrow> b) in
         case score_ofi c df of Inl e \<Rightarrow> Inl e | Inr c1 \<Rightarrow>
         (case score_cvd_trend c df of Inl e \<Rightarrow> Inl e | Inr c2 \<Rightarrow>
         (case score_vwap df of Inl e \<Rightarrow> Inl e | Inr c3 \<Rightarrow>
         (case score_momentum_and_orderbook c df ob of Inl e \<Rightarrow> Inl e | Inr c4 \<Rightarrow>
         (case score_liquidity_zones c df of Inl e \<Rightarrow> Inl e | Inr c5 \<Rightarrow>
          Inr (c1 + c2 + c3 + c4 + c5)))))))"

section \<open>risk_manager.py\<close>

record RiskParams =
  Entry :: real
  SL :: real
  TP :: real
  RR :: real

text \<open>\<open>_compute_atr\<close>: the ATR of the row before the last, \<open>0.0\<close> when it is NaN.\<close>

definition rm_compute_atr :: "config \<Rightarrow> candle list \<Rightarrow> py_error + real" where
  "rm_compute_atr c df =
     (case rolling_mean (ATR_PERIOD c) (ATR_PERIOD c) (true_range df) of
        Inl e \<Rightarrow> Inl e | Inr atr \<Rightarrow>
      (case iloc atr (- 2) of Inl e \<Rightarrow> Inl e | Inr atr_val \<Rightarrow>
       (case atr_val of None \<Rightarrow> Inr 0 | Some v \<Rightarrow> Inr v)))"

text \<open>
  \<open>_get_hvn_levels\<close> of this module builds the histogram itself. The caller returns
  before it passes an empty frame; the model gives such a frame no levels.
\<close>

definition rm_get_hvn_levels :: "config \<Rightarrow> candle list \<Rightarrow> py_error + real list" where
  "rm_get_hvn_levels c df =
     (case series_min (map c_low df) of None \<Rightarrow> Inr [] | Some price_min \<Rightarrow>
      (case series_max (map c_high df) of None \<Rightarrow> Inr [] | Some price_max \<Rightarrow>
       if price_max \<le> price_min then Inr []
       else if VP_BINS c = 0 then Inl IndexError
       else
         (let edges = linspace price_min price_max (VP_BINS c + 1);
              mids = map (\<lambda>(a, b). (a + b) / 2) (zip (butlast edges) (tl edges));
              indices = map (\<lambda>cd. nat (clip (digitize (c_close cd) edges - 1) 0
                                              (int (VP_BINS c) - 1))) df;
              vol_bins = add_at (replicate (VP_BINS c) 0) indices (map c_volume df) in
          case percentile vol_bins (HVN_PERCENTILE c) of Inl e \<Rightarrow> Inl e | Inr threshold \<Rightarrow>
          Inr (sort (map fst (filter (\<lambda>row. snd row \<ge> threshold) (zip mids vol_bins)))))))"

definition get_swing_extremes :: "candle list \<Rightarrow> nat \<Rightarrow> real option \<times> real option" where
  "get_swing_extremes df lookback =
     (let window = py_slice_from df (- int lookback)
      in (series_max (map c_high window), series_min (map c_low window)))"

definition find_nearest_above :: "real list \<Rightarrow> real \<Rightarrow> real option" where
  "find_nearest_above levels price =
     (let above = filter (\<lambda>l. l > price) levels
      in if above \<noteq> [] then Some (hd above) else None)"

definition find_nearest_below :: "real list \<Rightarrow> real \<Rightarrow> real option" where
  "find_nearest_below levels price =
     (let below = filter (\<lambda>l. l < price) levels
      in if below \<noteq> [] then Some (last below) else None)"

text \<open>
  \<open>calculate_risk_params\<close> in its two parts. \<open>risk_levels\<close> is the part up to the comment
  \<open>Sanity checks\<close>: it gives \<open>(entry, sl, tp)\<close> before any rounding. The swing extremes of
  a frame that is not empty are numbers (lemma \<open>get_swing_extremes_defined\<close>), so \<open>sl\<close> and
  \<open>tp\<close> are numbers; the model returns \<open>None\<close> on the branch of a NaN extreme, which is
  not reached. \<open>sanity_checks\<close> is the part after the comment; its first test,
  \<open>sl is None or tp is None\<close>, never fires and is left out.
\<close>

definition risk_levels ::
  "config \<Rightarrow> candle list \<Rightarrow> string \<Rightarrow> real \<Rightarrow> py_error + (real \<times> real \<times> real) option" where
  "risk_levels c df direction atr_multiplier_sl =
     (case iloc (map c_close df) (- 1) of Inl e \<Rightarrow> Inl e | Inr entry \<Rightarrow>
     (case rm_compute_atr c df of Inl e \<Rightarrow> Inl e | Inr atr \<Rightarrow>
      (let sl_buffer = atr * atr_multiplier_sl in
       case rm_get_hvn_levels c df of Inl e \<Rightarrow> Inl e | Inr hvn_levels \<Rightarrow>
       (case get_swing_extremes df (SWING_LOOKBACK c) of
          (Some swing_high, Some swing_low) \<Rightarrow>
            if direction = ''LONG'' then
              (let sl_anchor = (case find_nearest_below hvn_levels entry of
                                  None \<Rightarrow> swing_low | Some a \<Rightarrow> a);
                   sl = sl_anchor - sl_buffer;
                   tp = (case find_nearest_above hvn_levels entry of
                           None \<Rightarrow> swing_high | Some t \<Rightarrow> t)
               in Inr (Some (entry, sl, tp)))
            else
              (let sl_anchor = (case find_nearest_above hvn_levels entry of
                                  None \<Rightarrow> swing_high | Some a \<Rightarrow> a);
                   sl = sl_anchor + sl_buffer;
                   tp = (case find_nearest_below hvn_levels entry of
                           None \<Rightarrow> swing_low | Some t \<Rightarrow> t)
               in Inr (Some (entry, sl, tp)))
        | _ \<Rightarrow> Inr None))))"

definition sanity_checks :: "config \<Rightarrow> string \<Rightarrow> real \<Rightarrow> real \<Rightarrow> real \<Rightarrow> RiskParams option" where
  "sanity_checks c direction entry sl tp =
     (if direction = ''LONG'' \<and> (sl \<ge> entry \<or> tp \<le> entry) then None
      else if direction = ''SHORT'' \<and> (sl \<le> entry \<or> tp \<ge> entry) then None
      else
        (let risk = \<bar>entry - sl\<bar>; reward = \<bar>tp - entry\<bar> in
         if risk \<le> 0 then None
         else
           (let rr = py_round (reward / risk) 3 in
            if rr < MIN_RR_RATIO c then None
            else Some \<lparr> Entry = py_round entry 8, SL = py_round sl 8,
                        TP = py_round tp 8, RR = rr \<rparr>)))"

definition calculate_risk_params ::
  "config \<Rightarrow> candle list option \<Rightarrow> string \<Rightarrow> real \<Rightarrow> py_error + RiskParams option" where
  "calculate_risk_params c df_opt direction atr_multiplier_sl =
     (case df_opt of None \<Rightarrow> Inr None | Some df \<Rightarrow>
      if df = [] then Inr None
      else if direction \<noteq> ''LONG'' \<and> direction \<noteq> ''SHORT'' then Inr None
      else
        (case risk_levels c df direction atr_multiplier_sl of
           Inl e \<Rightarrow> Inl e
         | Inr None \<Rightarrow> Inr None
         | Inr (Some (entry, sl, tp)) \<Rightarrow> Inr (sanity_checks c direction entry sl tp)))"

section \<open>Domains and sample inputs of the statements\<close>




text \<open>
  The dict \<open>compute_score\<close> hands to Condition 4, and an absent order book: \<open>None\<close>, or
  a dict whose bids or asks are missing or empty.
\<close>

definition book_of :: "orderbook option \<Rightarrow> orderbook" where
  "book_of orderbook_opt = (case orderbook_opt of None \<Rightarrow> empty_orderbook | Some b \<Rightarrow> b)"

definition book_absent :: "orderbook option \<Rightarrow> bool" where
  "book_absent orderbook_opt =
     (case orderbook_opt of
        None \<Rightarrow> True
      | Some b \<Rightarrow> ob_bids b = None \<or> ob_bids b = Some []
                  \<or> ob_asks b = None \<or> ob_asks b = Some [])"

definition no_bids :: orderbook where
  "no_bids = \<lparr> ob_bids = Some [], ob_asks = Some [(131, 4)] \<rparr>"




text \<open>Thirty candles that climb by one each, with taker buying at 80 percent.\<close>

definition rising :: "candle list" where
  "rising = map (\<lambda>i. \<lparr> c_open = 100 + real i, c_high = 102 + real i, c_low = 99 + real i,
                         c_close = 101 + real i, c_volume = 10,
                         c_taker_buy_volume = 8, c_taker_sell_volume = 2 \<rparr>) [0..<30]"


text \<open>
  A frame of two candles of an instrument priced near 0.00001 with a tick of 0.00000001,
  and what \<open>calculate_risk_params\<close> computes on it: the bin edges and mid-points of the
  histogram over \<open>[0.00001000, 0.00001009]\<close>, the volume per bin, the entry and the
  unrounded stop and target, and the returned dict.
\<close>

definition two_rows :: "candle list" where
  "two_rows =
     [\<lparr> c_open = 1000 / 10 ^ 8, c_high = 1009 / 10 ^ 8, c_low = 1000 / 10 ^ 8,
        c_close = 1005 / 10 ^ 8, c_volume = 1,
        c_taker_buy_volume = 6 / 10, c_taker_sell_volume = 4 / 10 \<rparr>,
      \<lparr> c_open = 1002 / 10 ^ 8, c_high = 1003 / 10 ^ 8, c_low = 1001 / 10 ^ 8,
        c_close = 1002 / 10 ^ 8, c_volume = 1,
        c_taker_buy_volume = 6 / 10, c_taker_sell_volume = 4 / 10 \<rparr>]"

definition two_rows_edges :: "real list" where
  "two_rows_edges = map (\<lambda>i. (10000 + 3 * real i) / 1000000000) [0..<31]"

definition two_rows_levels :: "real list" where
  "two_rows_levels = map (\<lambda>i. (20003 + 6 * real i) / 2000000000) [0..<30]"

definition two_rows_bins :: "real list" where
  "two_rows_bins = [0,0,0,0,0,0,1,0,0,0,0,0,0,0,0,0,1,0,0,0,0,0,0,0,0,0,0,0,0,0]"

definition two_rows_entry :: real where "two_rows_entry = 1002 / 10 ^ 8"

definition two_rows_sl :: real where "two_rows_sl = 20039 / 2000000000"

definition two_rows_tp :: real where "two_rows_tp = 20045 / 2000000000"

definition two_rows_params :: RiskParams where
  "two_rows_params =
     \<lparr> Entry = 1002 / 10 ^ 8, SL = 1002 / 10 ^ 8, TP = 1002 / 10 ^ 8, RR = 5 \<rparr>"

text \<open>
  A frame of 34 candles, the \<open>ATR_PERIOD + SWING_LOOKBACK\<close> rows the docstring of
  \<open>calculate_risk_params\<close> asks for: the first candle of the frame above, then 33 flat
  candles at 0.00001002.
\<close>

definition flat_row :: candle where
  "flat_row = \<lparr> c_open = 1002 / 10 ^ 8, c_high = 1002 / 10 ^ 8, c_low = 1002 / 10 ^ 8,
                 c_close = 1002 / 10 ^ 8, c_volume = 1,
                 c_taker_buy_volume = 6 / 10, c_taker_sell_volume = 4 / 10 \<rparr>"

definition flat_market :: "candle list" where
  "flat_market = hd two_rows # replicate 33 flat_row"

definition flat_market_bins :: "real list" where
  "flat_market_bins = [0,0,0,0,0,0,33,0,0,0,0,0,0,0,0,0,1,0,0,0,0,0,0,0,0,0,0,0,0,0]"

section \<open>Properties of the lifecycle registry\<close>

subsection \<open>Construction and the invariant\<close>

lemma map_of_fold_update:
  "map_of (fold (\<lambda>p d. AList.update p v d) pairs al) k =
     (if k \<in> set pairs then Some v else map_of al k)"
  by (induction pairs arbitrary: al) (auto simp: update_conv')

lemma init_states: "map_of (states (init pairs)) k = (if k \<in> set pairs then Some IDLE else None)"
  by (simp add: init_def map_of_fold_update)

lemma init_positions:
  "map_of (positions (init pairs)) k = (if k \<in> set pairs then Some None else None)"
  by (simp add: init_def map_of_fold_update)

lemma inv_init: "registry_inv (init pairs)"
  by (simp add: registry_inv_def get_position_def get_state_def init_states init_positions)

lemma inv_unlock: "registry_inv sm \<Longrightarrow> registry_inv (fst (unlock_pair sm symbol reason))"
  by (simp add: registry_inv_def get_position_def get_state_def unlock_pair_def update_conv')

lemma lock_pair_idle:
  "map_of (states sm) symbol = Some IDLE \<Longrightarrow>
     lock_pair sm symbol direction entry tp sl rr score =
       Inr (True,
            sm\<lparr> states := AList.update symbol (if direction = ''LONG'' then LONG else SHORT)
                             (states sm),
                positions := AList.update symbol
                   (Some (new_position symbol direction entry tp sl rr score)) (positions sm) \<rparr>)"
  by (simp add: lock_pair_def is_idle_def Let_def new_position_def)

lemma lock_pair_locked:
  "map_of (states sm) symbol = Some s \<Longrightarrow> s \<noteq> IDLE \<Longrightarrow>
     lock_pair sm symbol direction entry tp sl rr score = Inr (False, sm)"
  by (simp add: lock_pair_def is_idle_def)

lemma lock_pair_True:
  "lock_pair sm symbol direction entry tp sl rr score = Inr (True, sm') \<Longrightarrow>
     map_of (states sm) symbol = Some IDLE"
  by (auto simp: lock_pair_def is_idle_def split: if_splits option.splits)

lemma inv_lock:
  assumes inv: "registry_inv sm"
    and lk: "lock_pair sm symbol direction entry tp sl rr score = Inr (ok, sm')"
  shows "registry_inv sm'"
proof (cases "is_idle sm symbol")
  case False
  with lk have "sm' = sm"
    by (simp add: lock_pair_def split: option.splits)
  with inv show ?thesis by simp
next
  case True
  then have "map_of (states sm) symbol = Some IDLE"
    by (simp add: is_idle_def)
  from lock_pair_idle[OF this, of direction entry tp sl rr score] lk
  have sm': "sm' = sm\<lparr> states := AList.update symbol
                          (if direction = ''LONG'' then LONG else SHORT) (states sm),
                       positions := AList.update symbol
                          (Some (new_position symbol direction entry tp sl rr score))
                          (positions sm) \<rparr>"
    by simp
  show ?thesis
    unfolding registry_inv_def
  proof
    fix s
    from inv have "(get_position sm s \<noteq> None) = (get_state sm s \<noteq> IDLE)"
      by (simp add: registry_inv_def)
    then show "(get_position sm' s \<noteq> None) = (get_state sm' s \<noteq> IDLE)"
      by (simp add: sm' get_position_def get_state_def update_conv')
  qed
qed

lemma inv_close:
  "registry_inv (fst acc) \<Longrightarrow> registry_inv (fst (close_position acc symbol reason))"
  using inv_unlock by (simp add: close_position_def Let_def)

lemma inv_resolve_item:
  "registry_inv (fst acc) \<Longrightarrow> registry_inv (fst (resolve_item prices acc item))"
  by (simp add: resolve_item_def inv_close split: option.splits)

lemma inv_foldl:
  "registry_inv (fst acc) \<Longrightarrow> registry_inv (fst (foldl (resolve_item prices) acc items))"
  by (induction items arbitrary: acc) (simp_all add: inv_resolve_item)

lemma inv_update: "registry_inv sm \<Longrightarrow> registry_inv (fst (update_virtual_positions sm prices))"
  by (simp add: update_virtual_positions_def inv_foldl)

lemma lock_btc:
  "lock_pair (init [''BTC/USDT:USDT'']) ''BTC/USDT:USDT'' ''LONG'' 100 110 95 2 4
     = Inr (True, btc_long)"
  by (simp add: lock_pair_def init_def is_idle_def btc_long_def new_position_def)

subsection \<open>The loop of \<open>update_virtual_positions\<close>, one symbol at a time\<close>

lemma view_close_other:
  "k \<noteq> symbol \<Longrightarrow> view symbol (close_position acc k reason) = view symbol acc"
  by (simp add: view_def close_position_def unlock_pair_def Let_def update_conv')

lemma view_close_same:
  "view symbol (close_position acc symbol reason) =
     (Some IDLE, Some None, filter (\<lambda>e. fst e = symbol) (snd acc) @ [(symbol, reason)])"
  by (simp add: view_def close_position_def unlock_pair_def Let_def update_conv')

lemma view_resolve_other:
  "fst item \<noteq> symbol \<Longrightarrow> view symbol (resolve_item prices acc item) = view symbol acc"
  by (simp add: resolve_item_def view_close_other split: option.splits)

lemma view_foldl_other:
  "symbol \<notin> fst ` set items \<Longrightarrow>
     view symbol (foldl (resolve_item prices) acc items) = view symbol acc"
proof (induction items arbitrary: acc)
  case Nil
  then show ?case by simp
next
  case (Cons item items)
  then have "fst item \<noteq> symbol" and "symbol \<notin> fst ` set items"
    by auto
  with Cons.IH[of "resolve_item prices acc item"] show ?case
    by (simp add: view_resolve_other)
qed

lemma resolve_item_hit:
  "resolve_item prices acc item =
     (case hit prices item of None \<Rightarrow> acc | Some r \<Rightarrow> close_position acc (fst item) r)"
  by (simp add: resolve_item_def hit_def split: option.splits)

lemma hit_expected: "hit prices (symbol, Some p) = expected_resolution p (map_of prices symbol)"
  by (simp add: hit_def expected_resolution_def split: option.splits)

lemma view_foldl_distinct:
  "distinct (map fst items) \<Longrightarrow> (symbol, v) \<in> set items \<Longrightarrow>
     view symbol (foldl (resolve_item prices) acc items) =
       (case hit prices (symbol, v) of
          None \<Rightarrow> view symbol acc
        | Some r \<Rightarrow>
            (Some IDLE, Some None, filter (\<lambda>e. fst e = symbol) (snd acc) @ [(symbol, r)]))"
proof (induction items arbitrary: acc)
  case Nil
  then show ?case by simp
next
  case (Cons item items)
  show ?case
  proof (cases "fst item = symbol")
    case True
    with Cons.prems have item: "item = (symbol, v)" and notin: "symbol \<notin> fst ` set items"
      by (auto simp: image_iff)
    have "view symbol (foldl (resolve_item prices) acc (item # items))
            = view symbol (resolve_item prices acc item)"
      using notin by (simp add: view_foldl_other)
    also have "\<dots> = (case hit prices (symbol, v) of
          None \<Rightarrow> view symbol acc
        | Some r \<Rightarrow>
            (Some IDLE, Some None, filter (\<lambda>e. fst e = symbol) (snd acc) @ [(symbol, r)]))"
      unfolding resolve_item_hit[of prices acc item]
      by (simp add: item view_close_same split: option.splits)
    finally show ?thesis .
  next
    case False
    with Cons.prems have in_items: "(symbol, v) \<in> set items"
      and dist: "distinct (map fst items)"
      by auto
    have same: "view symbol (resolve_item prices acc item) = view symbol acc"
      using False by (rule view_resolve_other)
    then have snd_same: "filter (\<lambda>e. fst e = symbol) (snd (resolve_item prices acc item))
                 = filter (\<lambda>e. fst e = symbol) (snd acc)"
      by (simp add: view_def)
    have "view symbol (foldl (resolve_item prices) acc (item # items))
            = view symbol (foldl (resolve_item prices) (resolve_item prices acc item) items)"
      by simp
    also have "\<dots> = (case hit prices (symbol, v) of
          None \<Rightarrow> view symbol (resolve_item prices acc item)
        | Some r \<Rightarrow> (Some IDLE, Some None,
             filter (\<lambda>e. fst e = symbol) (snd (resolve_item prices acc item)) @ [(symbol, r)]))"
      by (rule Cons.IH[OF dist in_items])
    finally show ?thesis
      by (simp only: same snd_same)
  qed
qed

lemma foldl_fixed:
  "(\<And>item. item \<in> set items \<Longrightarrow> f acc item = acc) \<Longrightarrow> foldl f acc items = acc"
  by (induction items) simp_all

subsection \<open>Claims about the lifecycle registry\<close>

text \<open>
  Claim C3. \<open>lock_pair\<close> on a symbol whose state is \<open>IDLE\<close> returns true, sets the state
  to \<open>LONG\<close> or \<open>SHORT\<close> by the direction and stores the new position; a second attempt
  on the manager it leaves returns false. On a symbol whose state is \<open>LONG\<close> or \<open>SHORT\<close>
  it returns false and the manager, with both of its maps, is the one it was given.
\<close>

theorem lock_pair_transition:
  "(map_of (states sm) symbol = Some IDLE \<longrightarrow>
      (\<exists>sm'. lock_pair sm symbol direction entry tp sl rr score = Inr (True, sm')
         \<and> get_state sm' symbol = (if direction = ''LONG'' then LONG else SHORT)
         \<and> get_position sm' symbol = Some (new_position symbol direction entry tp sl rr score)
         \<and> lock_pair sm' symbol direction2 entry2 tp2 sl2 rr2 score2 = Inr (False, sm')))
   \<and> (\<forall>s. map_of (states sm) symbol = Some s \<and> s \<noteq> IDLE \<longrightarrow>
         lock_pair sm symbol direction entry tp sl rr score = Inr (False, sm))"
proof (intro conjI impI allI)
  assume idle: "map_of (states sm) symbol = Some IDLE"
  let ?sm' = "sm\<lparr> states := AList.update symbol (if direction = ''LONG'' then LONG else SHORT)
                               (states sm),
                  positions := AList.update symbol
                    (Some (new_position symbol direction entry tp sl rr score)) (positions sm) \<rparr>"
  have st: "map_of (states ?sm') symbol = Some (if direction = ''LONG'' then LONG else SHORT)"
    by (simp add: update_conv')
  have "lock_pair ?sm' symbol direction2 entry2 tp2 sl2 rr2 score2 = Inr (False, ?sm')"
    by (rule lock_pair_locked[OF st]) simp
  moreover have "get_state ?sm' symbol = (if direction = ''LONG'' then LONG else SHORT)"
    using st by (simp add: get_state_def)
  moreover have
    "get_position ?sm' symbol = Some (new_position symbol direction entry tp sl rr score)"
    by (simp add: get_position_def update_conv')
  ultimately show "\<exists>sm'. lock_pair sm symbol direction entry tp sl rr score = Inr (True, sm')
         \<and> get_state sm' symbol = (if direction = ''LONG'' then LONG else SHORT)
         \<and> get_position sm' symbol = Some (new_position symbol direction entry tp sl rr score)
         \<and> lock_pair sm' symbol direction2 entry2 tp2 sl2 rr2 score2 = Inr (False, sm')"
    using lock_pair_idle[OF idle, of direction entry tp sl rr score] by blast
next
  fix s
  assume "map_of (states sm) symbol = Some s \<and> s \<noteq> IDLE"
  then show "lock_pair sm symbol direction entry tp sl rr score = Inr (False, sm)"
    using lock_pair_locked by blast
qed

theorem lock_pair_transition_witness:
  "map_of (states (init [''BTC/USDT:USDT''])) ''BTC/USDT:USDT'' = Some IDLE
   \<and> (\<exists>sm'. lock_pair (init [''BTC/USDT:USDT'']) ''BTC/USDT:USDT'' ''LONG'' 100 104 98 2 4
                = Inr (True, sm')
         \<and> get_state sm' ''BTC/USDT:USDT'' = LONG
         \<and> lock_pair sm' ''BTC/USDT:USDT'' ''SHORT'' 100 96 102 2 (- 4) = Inr (False, sm'))
   \<and> map_of (states btc_long) ''BTC/USDT:USDT'' = Some LONG \<and> LONG \<noteq> IDLE
   \<and> lock_pair btc_long ''BTC/USDT:USDT'' ''LONG'' 100 104 98 2 4 = Inr (False, btc_long)"
proof -
  have idle: "map_of (states (init [''BTC/USDT:USDT''])) ''BTC/USDT:USDT'' = Some IDLE"
    by (simp add: init_def)
  have locked: "map_of (states btc_long) ''BTC/USDT:USDT'' = Some LONG \<and> LONG \<noteq> IDLE"
    by (simp add: btc_long_def)
  from lock_pair_transition[of "init [''BTC/USDT:USDT'']" "''BTC/USDT:USDT''" "''LONG''"
         100 104 98 2 4 "''SHORT''" 100 96 102 2 "- 4"] idle
  have first: "\<exists>sm'. lock_pair (init [''BTC/USDT:USDT'']) ''BTC/USDT:USDT'' ''LONG'' 100 104 98 2 4
                = Inr (True, sm')
         \<and> get_state sm' ''BTC/USDT:USDT'' = LONG
         \<and> lock_pair sm' ''BTC/USDT:USDT'' ''SHORT'' 100 96 102 2 (- 4) = Inr (False, sm')"
    by auto
  from lock_pair_transition[of btc_long "''BTC/USDT:USDT''" "''LONG''" 100 104 98 2 4] locked
  have second: "lock_pair btc_long ''BTC/USDT:USDT'' ''LONG'' 100 104 98 2 4 = Inr (False, btc_long)"
    by blast
  from idle first locked second show ?thesis by blast
qed

text \<open>
  Claim C4. For every symbol, \<open>update_virtual_positions\<close> does what the resolution rule
  says of its position and its price: take-profit is tested before stop-loss, with
  \<open>price \<ge> tp\<close> and then \<open>price \<le> sl\<close> for LONG, \<open>price \<le> tp\<close> and then \<open>price \<ge> sl\<close> for
  SHORT; on a hit the state is \<open>IDLE\<close>, the position is \<open>None\<close> and the unlock is logged
  with the reason \<open>TP_HIT\<close> or \<open>SL_HIT\<close>; in every other case, a missing price included,
  the symbol's state and position are as before and nothing is logged for it.
\<close>

theorem update_virtual_positions_resolution:
  assumes dist: "distinct (map fst (positions sm))"
    and upd: "update_virtual_positions sm current_prices = (sm', events)"
  shows "case get_position sm symbol of
           None \<Rightarrow> untouched sm sm' events symbol
         | Some p \<Rightarrow>
            (case expected_resolution p (map_of current_prices symbol) of
               None \<Rightarrow> untouched sm sm' events symbol
             | Some reason \<Rightarrow> closed_with sm' events symbol reason)"
proof (cases "map_of (positions sm) symbol")
  case None
  then have "symbol \<notin> fst ` set (positions sm)"
    by (simp add: map_of_eq_None_iff)
  then have "view symbol (foldl (resolve_item current_prices) (sm, []) (positions sm))
               = view symbol (sm, [])"
    by (rule view_foldl_other)
  with upd None show ?thesis
    by (simp add: update_virtual_positions_def view_def untouched_def get_position_def)
next
  case (Some v)
  then have mem: "(symbol, v) \<in> set (positions sm)"
    by (rule map_of_SomeD)
  have fold_view: "view symbol (sm', events) =
       (case hit current_prices (symbol, v) of
          None \<Rightarrow> view symbol (sm, [])
        | Some r \<Rightarrow> (Some IDLE, Some None,
                      filter (\<lambda>e. fst e = symbol) (snd (sm, [])) @ [(symbol, r)]))"
    using view_foldl_distinct[OF dist mem, of current_prices "(sm, [])"] upd
    by (simp add: update_virtual_positions_def)
  show ?thesis
  proof (cases v)
    case None
    with fold_view Some show ?thesis
      by (simp add: hit_def view_def untouched_def get_position_def)
  next
    case (Some p)
    with fold_view \<open>map_of (positions sm) symbol = Some v\<close> show ?thesis
      by (simp add: hit_expected view_def untouched_def closed_with_def get_position_def
               split: option.splits)
  qed
qed

theorem update_virtual_positions_resolution_witness:
  "distinct (map fst (positions btc_long))
   \<and> update_virtual_positions btc_long [(''BTC/USDT:USDT'', 110)]
       = (\<lparr> states = [(''BTC/USDT:USDT'', IDLE)], positions = [(''BTC/USDT:USDT'', None)] \<rparr>,
          [(''BTC/USDT:USDT'', ''TP_HIT'')])
   \<and> closed_with \<lparr> states = [(''BTC/USDT:USDT'', IDLE)], positions = [(''BTC/USDT:USDT'', None)] \<rparr>
        [(''BTC/USDT:USDT'', ''TP_HIT'')] ''BTC/USDT:USDT'' ''TP_HIT''"
proof -
  have d: "distinct (map fst (positions btc_long))"
    by (simp add: btc_long_def)
  have u: "update_virtual_positions btc_long [(''BTC/USDT:USDT'', 110)]
       = (\<lparr> states = [(''BTC/USDT:USDT'', IDLE)], positions = [(''BTC/USDT:USDT'', None)] \<rparr>,
          [(''BTC/USDT:USDT'', ''TP_HIT'')])"
    by (simp add: update_virtual_positions_def resolve_item_def close_position_def
          unlock_pair_def btc_long_def new_position_def)
  have g: "get_position btc_long ''BTC/USDT:USDT''
             = Some (new_position ''BTC/USDT:USDT'' ''LONG'' 100 110 95 2 4)"
    by (simp add: get_position_def btc_long_def)
  have e: "expected_resolution (new_position ''BTC/USDT:USDT'' ''LONG'' 100 110 95 2 4)
             (map_of [(''BTC/USDT:USDT'', 110)] ''BTC/USDT:USDT'') = Some ''TP_HIT''"
    by (simp add: expected_resolution_def new_position_def)
  from update_virtual_positions_resolution[OF d u, of "''BTC/USDT:USDT''"]
  have "closed_with
          \<lparr> states = [(''BTC/USDT:USDT'', IDLE)], positions = [(''BTC/USDT:USDT'', None)] \<rparr>
          [(''BTC/USDT:USDT'', ''TP_HIT'')] ''BTC/USDT:USDT'' ''TP_HIT''"
    by (simp only: g e option.case)
  with d u show ?thesis by blast
qed

text \<open>
  Claim C8. After a successful \<open>lock_pair\<close> of a symbol, \<open>update_virtual_positions\<close>
  with a price for that symbol strictly between stop-loss and take-profit (\<open>sl < price < tp\<close>
  for LONG, \<open>tp < price < sl\<close> for SHORT) returns the manager the lock produced, with the
  state and the position the lock created, and logs no unlock.
\<close>

theorem lock_then_update_inside_band:
  assumes dist: "distinct (map fst (positions sm))"
    and lk: "lock_pair sm symbol direction entry tp sl rr score = Inr (True, sm')"
    and band: "(direction = ''LONG'' \<and> sl < price \<and> price < tp)
               \<or> (direction = ''SHORT'' \<and> tp < price \<and> price < sl)"
  shows "update_virtual_positions sm' [(symbol, price)] = (sm', [])
         \<and> get_state sm' symbol = (if direction = ''LONG'' then LONG else SHORT)
         \<and> get_position sm' symbol = Some (new_position symbol direction entry tp sl rr score)"
proof -
  let ?p = "new_position symbol direction entry tp sl rr score"
  have idle: "map_of (states sm) symbol = Some IDLE"
    using lk by (rule lock_pair_True)
  have sm': "sm' = sm\<lparr> states := AList.update symbol
                          (if direction = ''LONG'' then LONG else SHORT) (states sm),
                       positions := AList.update symbol (Some ?p) (positions sm) \<rparr>"
    using lk lock_pair_idle[OF idle, of direction entry tp sl rr score] by simp
  have dist': "distinct (map fst (positions sm'))"
    using dist by (simp add: sm' distinct_update)
  have at: "map_of (positions sm') symbol = Some (Some ?p)"
    by (simp add: sm' update_conv')
  have st: "map_of (states sm') symbol = Some (if direction = ''LONG'' then LONG else SHORT)"
    by (simp add: sm' update_conv')
  have keep: "resolve_item [(symbol, price)] (sm', []) item = (sm', [])"
    if "item \<in> set (positions sm')" for item
  proof (cases "fst item = symbol")
    case False
    then show ?thesis by (simp add: resolve_item_def split: option.splits)
  next
    case True
    with that dist' at have "snd item = Some ?p"
      by (metis map_of_is_SomeI option.inject prod.collapse)
    with True band show ?thesis
      by (auto simp: resolve_item_def new_position_def)
  qed
  have "update_virtual_positions sm' [(symbol, price)] = (sm', [])"
    unfolding update_virtual_positions_def
    by (rule foldl_fixed) (rule keep)
  moreover have "get_state sm' symbol = (if direction = ''LONG'' then LONG else SHORT)"
    using st by (simp add: get_state_def)
  moreover have "get_position sm' symbol = Some ?p"
    using at by (simp add: get_position_def)
  ultimately show ?thesis by blast
qed

theorem lock_then_update_inside_band_witness:
  "distinct (map fst (positions (init [''BTC/USDT:USDT''])))
   \<and> lock_pair (init [''BTC/USDT:USDT'']) ''BTC/USDT:USDT'' ''LONG'' 100 110 95 2 4
       = Inr (True, btc_long)
   \<and> ((''LONG'' = ''LONG'' \<and> (95::real) < 100 \<and> (100::real) < 110)
        \<or> (''LONG'' = ''SHORT'' \<and> (110::real) < 100 \<and> (100::real) < 95))
   \<and> update_virtual_positions btc_long [(''BTC/USDT:USDT'', 100)] = (btc_long, [])"
proof -
  have d: "distinct (map fst (positions (init [''BTC/USDT:USDT''])))"
    by (simp add: init_def)
  have b: "(''LONG'' = ''LONG'' \<and> (95::real) < 100 \<and> (100::real) < 110)
        \<or> (''LONG'' = ''SHORT'' \<and> (110::real) < 100 \<and> (100::real) < 95)"
    by simp
  from lock_then_update_inside_band[OF d lock_btc b] d lock_btc b show ?thesis by blast
qed

text \<open>
  Claim C9. In every manager reachable from construction by calls of \<open>lock_pair\<close>,
  \<open>unlock_pair\<close> and \<open>update_virtual_positions\<close>, a symbol has a position that is not
  \<open>None\<close> exactly when its state is not \<open>IDLE\<close>.
\<close>

theorem registry_invariant:
  "reachable sm \<Longrightarrow> (get_position sm symbol \<noteq> None) = (get_state sm symbol \<noteq> IDLE)"
proof -
  assume "reachable sm"
  then have "registry_inv sm"
  proof (induction rule: reachable.induct)
    case (construct pairs)
    show ?case by (rule inv_init)
  next
    case (lock sm symbol direction entry tp sl rr score ok sm')
    then show ?case using inv_lock by blast
  next
    case (unlock sm symbol reason)
    then show ?case by (simp add: inv_unlock)
  next
    case (update sm current_prices)
    then show ?case by (simp add: inv_update)
  qed
  then show ?thesis by (simp add: registry_inv_def)
qed

theorem registry_invariant_witness:
  "reachable btc_long
   \<and> (get_position btc_long ''BTC/USDT:USDT'' \<noteq> None)
       = (get_state btc_long ''BTC/USDT:USDT'' \<noteq> IDLE)
   \<and> get_state btc_long ''BTC/USDT:USDT'' = LONG"
proof -
  have r: "reachable btc_long"
    using reachable.lock[OF reachable.construct lock_btc] .
  have "get_state btc_long ''BTC/USDT:USDT'' = LONG"
    by (simp add: btc_long_def get_state_def)
  with r registry_invariant[OF r, of "''BTC/USDT:USDT''"] show ?thesis by simp
qed

text \<open>
  Claim C10. For a symbol that has no entry in the registry \<open>get_state\<close> answers \<open>IDLE\<close>
  and \<open>is_idle\<close> answers false, but \<open>lock_pair\<close> does not return false: the \<open>KeyError\<close> of
  the subscript \<open>self._states[symbol]\<close> in its warning leaves the call. Here the manager
  tracks one pair and the call names another.
\<close>

theorem lock_pair_untracked_raises:
  "get_state (init [''BTC/USDT:USDT'']) ''DOGE/USDT:USDT'' = IDLE
   \<and> \<not> is_idle (init [''BTC/USDT:USDT'']) ''DOGE/USDT:USDT''
   \<and> lock_pair (init [''BTC/USDT:USDT'']) ''DOGE/USDT:USDT'' ''LONG'' 100 110 95 2 4
       = Inl KeyError"
  by (simp add: init_def get_state_def is_idle_def lock_pair_def)

section \<open>Properties of the quality gate\<close>








lemma gate_short_window:
  "length df < ATR_MA_PERIOD c + ATR_PERIOD c + 2 \<Longrightarrow> gate_anti_wash_trading c df = Inr False"
  by (simp add: gate_anti_wash_trading_def Let_def)




section \<open>Properties of the scoring engine\<close>

subsection \<open>Each condition returns a vote\<close>









lemma fold_min_ge: "b \<le> x \<Longrightarrow> \<forall>y \<in> set xs. b \<le> y \<Longrightarrow> b \<le> fold min xs (x::real)"
  by (induction xs arbitrary: x) auto











subsection \<open>The aggregate score\<close>








lemma momentum_rising: "momentum_score default_config rising = Inr 1"
  by (simp add: momentum_score_def default_config_def rising_def iloc_def Let_def)







subsection \<open>The missing order book\<close>

lemma book_score_absent: "book_absent orderbook_opt \<Longrightarrow> book_score c (book_of orderbook_opt) = 0"
  by (auto simp: book_absent_def book_of_def book_score_def empty_orderbook_def Let_def
           split: option.splits)

lemma momentum_score_cases:
  "momentum_score c df = Inr m \<Longrightarrow> m = 1 \<or> m = - 1 \<or> m = 0"
  by (auto simp: momentum_score_def Let_def split: if_splits sum.splits)

lemma score_c4_book_zero:
  "book_score c ob = 0 \<Longrightarrow> score_momentum_and_orderbook c df ob = momentum_score c df"
  by (cases "momentum_score c df")
     (auto simp: score_momentum_and_orderbook_def Let_def dest: momentum_score_cases)

lemma compute_score_book:
  "book_score c (book_of ob1) = book_score c (book_of ob2) \<Longrightarrow>
     compute_score c df_opt ob1 = compute_score c df_opt ob2"
  by (simp add: compute_score_def score_momentum_and_orderbook_def book_of_def Let_def
           split: option.splits sum.splits)

lemma compute_score_isl_book:
  "isl (compute_score c df_opt ob1) = isl (compute_score c df_opt ob2)"
  by (simp add: compute_score_def score_momentum_and_orderbook_def Let_def
           split: option.splits sum.splits)

text \<open>
  Claim C6, as stated, fails: with the order book absent Condition 4 is not neutral.
  On the rising frame, without a book, \<open>_score_momentum_and_orderbook\<close> votes \<open>+1\<close>.
\<close>

theorem missing_orderbook_condition4_not_neutral:
  "book_absent None
   \<and> score_momentum_and_orderbook default_config rising (book_of None) = Inr 1"
  using momentum_rising
  by (simp add: book_absent_def score_momentum_and_orderbook_def book_of_def book_score_def
        empty_orderbook_def Let_def)

text \<open>
  Claim C6, amended. When the order book is absent (\<open>None\<close>, or bids or asks missing or
  empty) the order-book sub-vote of Condition 4 is neutral, so Condition 4 votes what
  its momentum sub-vote says; the score is the one computed without a book, and whether
  \<open>compute_score\<close> raises does not depend on the book at all.
\<close>

theorem missing_orderbook_book_vote_neutral:
  assumes "book_absent orderbook_opt"
  shows "book_score c (book_of orderbook_opt) = 0
         \<and> score_momentum_and_orderbook c df (book_of orderbook_opt) = momentum_score c df
         \<and> compute_score c df_opt orderbook_opt = compute_score c df_opt None
         \<and> isl (compute_score c df_opt orderbook_opt) = isl (compute_score c df_opt other_book)"
proof -
  have b: "book_score c (book_of orderbook_opt) = 0"
    using assms by (rule book_score_absent)
  have n: "book_score c (book_of None) = 0"
    by (rule book_score_absent) (simp add: book_absent_def)
  from b n have "compute_score c df_opt orderbook_opt = compute_score c df_opt None"
    by (intro compute_score_book) simp
  with b score_c4_book_zero[OF b] compute_score_isl_book show ?thesis
    by blast
qed

theorem missing_orderbook_book_vote_neutral_witness:
  "book_absent (Some no_bids)
   \<and> book_score default_config (book_of (Some no_bids)) = 0
   \<and> score_momentum_and_orderbook default_config rising (book_of (Some no_bids))
       = momentum_score default_config rising
   \<and> compute_score default_config (Some rising) (Some no_bids)
       = compute_score default_config (Some rising) None
   \<and> isl (compute_score default_config (Some rising) (Some no_bids))
       = isl (compute_score default_config (Some rising) (Some empty_orderbook))"
proof -
  have a: "book_absent (Some no_bids)" by (simp add: book_absent_def no_bids_def)
  from missing_orderbook_book_vote_neutral[OF a, of default_config rising "Some rising"
         "Some empty_orderbook"] a
  show ?thesis by blast
qed

section \<open>Properties of the risk calculator\<close>

subsection \<open>Rounding keeps the order, not the strict order\<close>

lemma round_half_even_bounds: "\<lfloor>x\<rfloor> \<le> round_half_even x \<and> round_half_even x \<le> \<lfloor>x\<rfloor> + 1"
  by (simp add: round_half_even_def Let_def)

lemma round_half_even_mono:
  assumes "x \<le> y"
  shows "round_half_even x \<le> round_half_even y"
proof (cases "\<lfloor>x\<rfloor> < \<lfloor>y\<rfloor>")
  case True
  have "round_half_even x \<le> \<lfloor>x\<rfloor> + 1" using round_half_even_bounds by blast
  also have "\<dots> \<le> \<lfloor>y\<rfloor>" using True by simp
  also have "\<dots> \<le> round_half_even y" using round_half_even_bounds by blast
  finally show ?thesis .
next
  case False
  with assms have eq: "\<lfloor>x\<rfloor> = \<lfloor>y\<rfloor>"
    using floor_mono[of x y] by linarith
  with assms have "x - of_int \<lfloor>x\<rfloor> \<le> y - of_int \<lfloor>y\<rfloor>" by simp
  with eq show ?thesis
    by (auto simp: round_half_even_def Let_def)
qed

lemma py_round_mono: "x \<le> y \<Longrightarrow> py_round x n \<le> py_round y n"
proof -
  assume "x \<le> y"
  then have "x * 10 ^ n \<le> y * 10 ^ n" by simp
  then have "round_half_even (x * 10 ^ n) \<le> round_half_even (y * 10 ^ n)"
    by (rule round_half_even_mono)
  then have "(of_int (round_half_even (x * 10 ^ n)) :: real) \<le> of_int (round_half_even (y * 10 ^ n))"
    by simp
  then show ?thesis
    unfolding py_round_def by (simp add: divide_right_mono)
qed

lemma sanity_checks_SomeD:
  assumes "sanity_checks c direction entry sl tp = Some rp"
  shows "Entry rp = py_round entry 8 \<and> SL rp = py_round sl 8 \<and> TP rp = py_round tp 8
         \<and> RR rp = py_round (\<bar>tp - entry\<bar> / \<bar>entry - sl\<bar>) 3 \<and> MIN_RR_RATIO c \<le> RR rp
         \<and> (direction = ''LONG'' \<longrightarrow> sl < entry \<and> entry < tp)
         \<and> (direction = ''SHORT'' \<longrightarrow> tp < entry \<and> entry < sl)"
  using assms
  by (auto simp: sanity_checks_def Let_def split: if_splits)

lemma calculate_risk_params_SomeD:
  assumes "calculate_risk_params c df_opt direction m = Inr (Some rp)"
  shows "\<exists>df entry sl tp.
           df_opt = Some df \<and> df \<noteq> [] \<and> (direction = ''LONG'' \<or> direction = ''SHORT'')
           \<and> risk_levels c df direction m = Inr (Some (entry, sl, tp))
           \<and> sanity_checks c direction entry sl tp = Some rp"
  using assms
  by (auto simp: calculate_risk_params_def split: option.splits sum.splits if_splits prod.splits)

subsection \<open>The frame of two candles, step by step\<close>

lemma upt31: "[0..<31] = [0,1,2,3,4,5,6,7,8,9,10,11,12,13,14,15,16,17,18,19,20,21,22,23,24,25,26,27,28,29,30]"
  by (simp add: upt_rec)

lemma upt30: "[0..<30] = [0,1,2,3,4,5,6,7,8,9,10,11,12,13,14,15,16,17,18,19,20,21,22,23,24,25,26,27,28,29]"
  by (simp add: upt_rec)

lemma bins_two_rows: "(replicate 30 (0::real))[16 := 1, 6 := 1] = two_rows_bins"
  by (simp add: eval_nat_numeral two_rows_bins_def)

lemma rm_get_hvn_levels_eval:
  assumes "series_min (map c_low df) = Some price_min"
    and "series_max (map c_high df) = Some price_max"
    and "price_min < price_max" and "VP_BINS c \<noteq> 0"
    and "linspace price_min price_max (VP_BINS c + 1) = edges"
    and "map (\<lambda>(a, b). (a + b) / 2) (zip (butlast edges) (tl edges)) = mids"
    and "map (\<lambda>cd. nat (clip (digitize (c_close cd) edges - 1) 0 (int (VP_BINS c) - 1))) df = indices"
    and "add_at (replicate (VP_BINS c) 0) indices (map c_volume df) = vol_bins"
    and "percentile vol_bins (HVN_PERCENTILE c) = Inr threshold"
    and "sort (map fst (filter (\<lambda>row. snd row \<ge> threshold) (zip mids vol_bins))) = levels"
  shows "rm_get_hvn_levels c df = Inr levels"
  using assms by (simp add: rm_get_hvn_levels_def Let_def)

lemma digitize_two_rows:
  "digitize (1005 / 10^8) two_rows_edges = 17" "digitize (1002 / 10^8) two_rows_edges = 7"
  by (simp_all add: digitize_def two_rows_edges_def upt31)

lemma hvn_two_rows: "rm_get_hvn_levels default_config two_rows = Inr two_rows_levels"
proof (rule rm_get_hvn_levels_eval)
  show "series_min (map c_low two_rows) = Some (1000 / 10^8)"
    by (simp add: two_rows_def)
  show "series_max (map c_high two_rows) = Some (1009 / 10^8)"
    by (simp add: two_rows_def)
  show "(1000 / 10^8 :: real) < 1009 / 10^8" by simp
  show "VP_BINS default_config \<noteq> 0" by (simp add: default_config_def)
  show "linspace (1000 / 10^8) (1009 / 10^8) (VP_BINS default_config + 1) = two_rows_edges"
    by (simp add: linspace_def two_rows_edges_def default_config_def)
  show "map (\<lambda>(a, b). (a + b) / 2) (zip (butlast two_rows_edges) (tl two_rows_edges)) = two_rows_levels"
    by (simp add: two_rows_edges_def two_rows_levels_def upt31 upt30)
  show "map (\<lambda>cd. nat (clip (digitize (c_close cd) two_rows_edges - 1) 0
                (int (VP_BINS default_config) - 1))) two_rows = [16, 6]"
    using digitize_two_rows by (simp add: two_rows_def clip_def default_config_def)
  show "add_at (replicate (VP_BINS default_config) 0) [16, 6] (map c_volume two_rows) = two_rows_bins"
    by (simp add: add_at_def two_rows_def bins_two_rows default_config_def two_rows_bins_def)
  show "percentile two_rows_bins (HVN_PERCENTILE default_config) = Inr 0"
    by (simp add: percentile_def Let_def default_config_def two_rows_bins_def)
  show "sort (map fst (filter (\<lambda>row. snd row \<ge> 0) (zip two_rows_levels two_rows_bins))) = two_rows_levels"
    by (simp add: two_rows_levels_def two_rows_bins_def upt30)
qed

lemma atr_two_rows: "rm_compute_atr default_config two_rows = Inr 0"
  by (simp add: rm_compute_atr_def default_config_def two_rows_def true_range_def shift1_def
        rolling_mean_def window_mean_def window_at_def row_max_def f_abs_def f_sub_def
        iloc_def upt_rec Let_def)

lemma swing_two_rows:
  "get_swing_extremes two_rows (SWING_LOOKBACK default_config) = (Some (1009 / 10^8), Some (1000 / 10^8))"
  by (simp add: get_swing_extremes_def py_slice_from_def slice_index_def two_rows_def default_config_def)

lemma near_two_rows: "find_nearest_below two_rows_levels two_rows_entry = Some two_rows_sl"
   "find_nearest_above two_rows_levels two_rows_entry = Some two_rows_tp"
  by (simp_all add: find_nearest_below_def find_nearest_above_def two_rows_levels_def upt30
        two_rows_entry_def two_rows_sl_def two_rows_tp_def)

lemma levels_two_rows:
  "risk_levels default_config two_rows ''LONG'' (ATR_SL_MULTIPLIER default_config)
     = Inr (Some (two_rows_entry, two_rows_sl, two_rows_tp))"
proof -
  have e: "iloc (map c_close two_rows) (- 1) = Inr two_rows_entry"
    by (simp add: iloc_def two_rows_def two_rows_entry_def)
  show ?thesis
    using e atr_two_rows hvn_two_rows swing_two_rows near_two_rows
    by (simp add: risk_levels_def Let_def)
qed

lemma sanity_two_rows: "sanity_checks default_config ''LONG'' two_rows_entry two_rows_sl two_rows_tp = Some two_rows_params"
  by (simp add: sanity_checks_def Let_def default_config_def py_round_def round_half_even_def
        two_rows_entry_def two_rows_sl_def two_rows_tp_def two_rows_params_def)

lemma risk_two_rows:
  "calculate_risk_params default_config (Some two_rows) ''LONG'' (ATR_SL_MULTIPLIER default_config)
     = Inr (Some two_rows_params)"
  using levels_two_rows sanity_two_rows by (simp add: calculate_risk_params_def two_rows_def)

lemma risk_one_row:
  "calculate_risk_params c (Some [cd]) ''LONG'' m = Inl IndexError"
  by (simp add: calculate_risk_params_def risk_levels_def rm_compute_atr_def rolling_mean_def
        true_range_def shift1_def iloc_def Let_def)

lemma series_max_Some: "xs \<noteq> [] \<Longrightarrow> \<exists>m. series_max xs = Some m"
  by (cases xs) auto

lemma series_min_Some: "xs \<noteq> [] \<Longrightarrow> \<exists>m. series_min xs = Some m"
  by (cases xs) auto

lemma py_slice_from_nonempty:
  assumes "xs \<noteq> []"
  shows "py_slice_from xs (- int k) \<noteq> []"
proof (cases "k = 0")
  case True
  with assms show ?thesis by (simp add: py_slice_from_def slice_index_def)
next
  case False
  from assms have "0 < length xs" by simp
  with False have "nat (max 0 (int (length xs) - int k)) < length xs"
    by (simp add: max_def) linarith
  with False show ?thesis
    by (simp add: py_slice_from_def slice_index_def)
qed

lemma get_swing_extremes_defined:
  "df \<noteq> [] \<Longrightarrow> \<exists>swing_high swing_low. get_swing_extremes df lookback = (Some swing_high, Some swing_low)"
proof -
  assume "df \<noteq> []"
  then have "py_slice_from df (- int lookback) \<noteq> []" by (rule py_slice_from_nonempty)
  then have "map c_high (py_slice_from df (- int lookback)) \<noteq> []"
    "map c_low (py_slice_from df (- int lookback)) \<noteq> []" by simp_all
  then show ?thesis
    using series_max_Some series_min_Some
    by (simp add: get_swing_extremes_def Let_def)
qed

subsection \<open>The frame of 34 candles, step by step\<close>

lemma length_flat_market: "length flat_market = 34"
  by (simp add: flat_market_def)

lemma bins_flat_market:
  "add_at (replicate (VP_BINS default_config) 0) (16 # replicate 33 6) (map c_volume flat_market)
     = flat_market_bins"
  by (simp add: add_at_def flat_market_def two_rows_def flat_row_def default_config_def
        bins_two_rows two_rows_bins_def flat_market_bins_def eval_nat_numeral)

lemma indices_flat_market:
  "map (\<lambda>cd. nat (clip (digitize (c_close cd) two_rows_edges - 1) 0
                (int (VP_BINS default_config) - 1))) flat_market = 16 # replicate 33 6"
  using digitize_two_rows
  by (simp add: flat_market_def two_rows_def flat_row_def clip_def default_config_def)

lemma pct_flat_market: "percentile flat_market_bins (HVN_PERCENTILE default_config) = Inr 0"
  by (simp add: percentile_def Let_def default_config_def flat_market_bins_def)

lemma funpow_min: "(min x ^^ n) (y::real) = (if n = 0 then y else min x y)"
  by (induction n) (auto simp: min_def)

lemma funpow_max: "(max x ^^ n) (y::real) = (if n = 0 then y else max x y)"
  by (induction n) (auto simp: max_def)

lemma hvn_flat_market: "rm_get_hvn_levels default_config flat_market = Inr two_rows_levels"
proof (rule rm_get_hvn_levels_eval)
  show "series_min (map c_low flat_market) = Some (1000 / 10^8)"
    by (simp add: flat_market_def two_rows_def flat_row_def funpow_min)
  show "series_max (map c_high flat_market) = Some (1009 / 10^8)"
    by (simp add: flat_market_def two_rows_def flat_row_def funpow_max)
  show "(1000 / 10^8 :: real) < 1009 / 10^8" by simp
  show "VP_BINS default_config \<noteq> 0" by (simp add: default_config_def)
  show "linspace (1000 / 10^8) (1009 / 10^8) (VP_BINS default_config + 1) = two_rows_edges"
    by (simp add: linspace_def two_rows_edges_def default_config_def)
  show "map (\<lambda>(a, b). (a + b) / 2) (zip (butlast two_rows_edges) (tl two_rows_edges)) = two_rows_levels"
    by (simp add: two_rows_edges_def two_rows_levels_def upt31 upt30)
  show "map (\<lambda>cd. nat (clip (digitize (c_close cd) two_rows_edges - 1) 0
                (int (VP_BINS default_config) - 1))) flat_market = 16 # replicate 33 6"
    by (rule indices_flat_market)
  show "add_at (replicate (VP_BINS default_config) 0) (16 # replicate 33 6) (map c_volume flat_market)
     = flat_market_bins"
    by (rule bins_flat_market)
  show "percentile flat_market_bins (HVN_PERCENTILE default_config) = Inr 0"
    by (rule pct_flat_market)
  show "sort (map fst (filter (\<lambda>row. snd row \<ge> 0) (zip two_rows_levels flat_market_bins))) = two_rows_levels"
    by (simp add: two_rows_levels_def flat_market_bins_def upt30)
qed

lemma non_nan_replicate: "non_nan (replicate n (Some x)) = replicate n x"
  by (induction n) simp_all

lemma true_range_flat_market:
  "true_range flat_market = Some (9 / 10 ^ 8) # Some (3 / 10 ^ 8) # replicate 32 (Some 0)"
  by (simp add: true_range_def flat_market_def two_rows_def flat_row_def shift1_def row_max_def
        f_abs_def f_sub_def eval_nat_numeral Let_def)

lemma window_flat_market:
  "window_at (Some (9 / 10 ^ 8) # Some (3 / 10 ^ 8) # replicate 32 (Some (0::real))) 14 32
     = replicate 14 (Some 0)"
  by (simp add: window_at_def)

lemma atr_flat_market: "rm_compute_atr default_config flat_market = Inr 0"
proof -
  have p: "ATR_PERIOD default_config = 14" by (simp add: default_config_def)
  have w: "window_mean 14 (replicate 14 (Some 0)) = Some 0"
    by (simp add: window_mean_def non_nan_replicate sum_list_replicate)
  have "iloc (map (\<lambda>i. window_mean 14 (window_at (true_range flat_market) 14 i))
                [0..<length (true_range flat_market)]) (- 2) = Inr (Some 0)"
    using true_range_flat_market window_flat_market w by (simp add: iloc_def)
  then show ?thesis
    by (simp add: rm_compute_atr_def rolling_mean_def p)
qed

lemma swing_flat_market:
  "get_swing_extremes flat_market (SWING_LOOKBACK default_config)
     = (Some (1002 / 10 ^ 8), Some (1002 / 10 ^ 8))"
  by (simp add: get_swing_extremes_def py_slice_from_def slice_index_def flat_market_def
        flat_row_def default_config_def eval_nat_numeral)

lemma levels_flat_market:
  "risk_levels default_config flat_market ''LONG'' (ATR_SL_MULTIPLIER default_config)
     = Inr (Some (two_rows_entry, two_rows_sl, two_rows_tp))"
proof -
  have e: "iloc (map c_close flat_market) (- 1) = Inr two_rows_entry"
    by (simp add: iloc_def flat_market_def flat_row_def two_rows_entry_def)
  show ?thesis
    using e atr_flat_market hvn_flat_market swing_flat_market near_two_rows
    by (simp add: risk_levels_def Let_def)
qed

lemma risk_flat_market:
  "calculate_risk_params default_config (Some flat_market) ''LONG''
      (ATR_SL_MULTIPLIER default_config) = Inr (Some two_rows_params)"
  using levels_flat_market sanity_two_rows by (simp add: calculate_risk_params_def flat_market_def)

text \<open>Scenario D: ratio 2.0 is accepted at the default minimum, ratio 1.9 is rejected.\<close>

lemma scenario_D:
  "sanity_checks default_config ''LONG'' 100 98 104
     = Some \<lparr> Entry = 100, SL = 98, TP = 104, RR = 2 \<rparr>"
  "sanity_checks default_config ''LONG'' 100 98 (1038 / 10) = None"
  by (simp_all add: sanity_checks_def Let_def default_config_def py_round_def
        round_half_even_def)

subsection \<open>Claims about the risk calculator\<close>

text \<open>
  What the sanity checks establish: the levels \<open>(entry, sl, tp)\<close> behind every returned
  dict satisfy the strict order of the direction (\<open>sl < entry < tp\<close> for LONG,
  \<open>tp < entry < sl\<close> for SHORT) and a ratio of at least \<open>MIN_RR_RATIO\<close>. The returned
  \<open>Entry\<close>, \<open>SL\<close> and \<open>TP\<close> are these levels rounded to 8 decimals, and nothing tests
  them again: rounding keeps the order but not its strictness.
\<close>

lemma risk_params_geometry:
  assumes "calculate_risk_params c df_opt direction atr_multiplier_sl = Inr (Some rp)"
  shows "\<exists>df entry sl tp.
           df_opt = Some df \<and> risk_levels c df direction atr_multiplier_sl = Inr (Some (entry, sl, tp))
           \<and> Entry rp = py_round entry 8 \<and> SL rp = py_round sl 8 \<and> TP rp = py_round tp 8
           \<and> ((direction = ''LONG'' \<and> sl < entry \<and> entry < tp
                  \<and> SL rp \<le> Entry rp \<and> Entry rp \<le> TP rp)
                \<or> (direction = ''SHORT'' \<and> tp < entry \<and> entry < sl
                  \<and> TP rp \<le> Entry rp \<and> Entry rp \<le> SL rp))
           \<and> RR rp = py_round (\<bar>tp - entry\<bar> / \<bar>entry - sl\<bar>) 3
           \<and> MIN_RR_RATIO c \<le> RR rp"
proof -
  from calculate_risk_params_SomeD[OF assms]
  obtain df entry sl tp where df: "df_opt = Some df"
    and dir: "direction = ''LONG'' \<or> direction = ''SHORT''"
    and lv: "risk_levels c df direction atr_multiplier_sl = Inr (Some (entry, sl, tp))"
    and sc: "sanity_checks c direction entry sl tp = Some rp"
    by blast
  note f = sanity_checks_SomeD[OF sc]
  have geo: "(direction = ''LONG'' \<and> sl < entry \<and> entry < tp
                  \<and> SL rp \<le> Entry rp \<and> Entry rp \<le> TP rp)
                \<or> (direction = ''SHORT'' \<and> tp < entry \<and> entry < sl
                  \<and> TP rp \<le> Entry rp \<and> Entry rp \<le> SL rp)"
  proof (cases "direction = ''LONG''")
    case True
    with f have o: "sl < entry" "entry < tp" by auto
    then have "py_round sl 8 \<le> py_round entry 8" "py_round entry 8 \<le> py_round tp 8"
      by (auto intro: py_round_mono)
    with f True o show ?thesis by simp
  next
    case False
    with dir have s: "direction = ''SHORT''" by simp
    with f have o: "tp < entry" "entry < sl" by auto
    then have "py_round tp 8 \<le> py_round entry 8" "py_round entry 8 \<le> py_round sl 8"
      by (auto intro: py_round_mono)
    with f s o show ?thesis by simp
  qed
  from df lv f geo show ?thesis by blast
qed

lemma risk_params_geometry_flat_market:
  "calculate_risk_params default_config (Some flat_market) ''LONG''
       (ATR_SL_MULTIPLIER default_config) = Inr (Some two_rows_params)
   \<and> (\<exists>df entry sl tp.
           Some flat_market = Some df
           \<and> risk_levels default_config df ''LONG'' (ATR_SL_MULTIPLIER default_config)
               = Inr (Some (entry, sl, tp))
           \<and> Entry two_rows_params = py_round entry 8 \<and> SL two_rows_params = py_round sl 8
           \<and> TP two_rows_params = py_round tp 8
           \<and> ((''LONG'' = ''LONG'' \<and> sl < entry \<and> entry < tp
                  \<and> SL two_rows_params \<le> Entry two_rows_params
                  \<and> Entry two_rows_params \<le> TP two_rows_params)
                \<or> (''LONG'' = ''SHORT'' \<and> tp < entry \<and> entry < sl
                  \<and> TP two_rows_params \<le> Entry two_rows_params
                  \<and> Entry two_rows_params \<le> SL two_rows_params))
           \<and> RR two_rows_params = py_round (\<bar>tp - entry\<bar> / \<bar>entry - sl\<bar>) 3
           \<and> MIN_RR_RATIO default_config \<le> RR two_rows_params)"
  using risk_params_geometry[OF risk_flat_market] risk_flat_market by blast

text \<open>
  Claim C2. Every dict \<open>calculate_risk_params\<close> returns should satisfy the strict order
  of its direction, also after the rounding of \<open>Entry\<close>, \<open>SL\<close> and \<open>TP\<close> to 8 decimals.
  The code breaks this: it rejects \<open>sl \<ge> entry\<close>, \<open>tp \<le> entry\<close> and a risk of zero on
  the unrounded levels and then returns the rounded ones unchecked. On the frame of 34
  candles the levels pass the tests (stop 0.0000100195 < entry 0.00001002 < target
  0.0000100225, ratio 5) and the returned dict has \<open>Entry = SL = TP = 0.00001002\<close>.
\<close>

theorem risk_params_rounding_collapses:
  "calculate_risk_params default_config (Some flat_market) ''LONG''
       (ATR_SL_MULTIPLIER default_config) = Inr (Some two_rows_params)
   \<and> SL two_rows_params = Entry two_rows_params
   \<and> TP two_rows_params = Entry two_rows_params"
  using risk_flat_market by (simp add: two_rows_params_def)

text \<open>
  Claim C5. The gate and the scorer fail closed on a short window (lemmas
  \<open>gate_short_window\<close> and \<open>compute_score_short\<close>), but \<open>calculate_risk_params\<close> has no
  guard on the number of rows: on a frame of one candle the subscript \<open>.iloc[-2]\<close> of
  \<open>_compute_atr\<close> raises \<open>IndexError\<close>, and on the frame of two candles, far below
  \<open>ATR_PERIOD + SWING_LOOKBACK\<close> rows, it returns a dict and not \<open>None\<close>.
\<close>

theorem risk_params_short_window_not_rejected:
  "calculate_risk_params default_config (Some [hd two_rows]) ''LONG''
       (ATR_SL_MULTIPLIER default_config) = Inl IndexError
   \<and> length two_rows = 2
   \<and> calculate_risk_params default_config (Some two_rows) ''LONG''
       (ATR_SL_MULTIPLIER default_config) = Inr (Some two_rows_params)"
  using risk_two_rows risk_one_row by (simp add: two_rows_def)

end
